theory Spec2Isabelle
  imports Main "HOL-Library.Word"
begin

unbundle bit_operations_syntax

section \<open>The wpantund NCP controller (src/agent/ncp_wpantund.cpp)\<close>

text \<open>
  The controller talks to wpantund over D-Bus. The model keeps the controller's fields,
  the messages it receives and sends, and the events it hands to the event emitter.
  Everything outside the file (libdbus, wpanctl-utils, the event emitter) appears through
  what the controller passes to it and what it gets back.
\<close>

subsection \<open>Machine types and D-Bus values\<close>

type_synonym uint8_t = "8 word"
type_synonym uint16_t = "16 word"
type_synonym uint32_t = "32 word"
type_synonym uint64_t = "64 word"

text \<open>
  One argument of a D-Bus message, as far as the controller looks at it: strings, the
  64-bit and 32-bit integers, booleans and arrays of bytes.
\<close>

datatype DBusArg =
    DBusString string
  | DBusUInt64 uint64_t
  | DBusUInt32 uint32_t
  | DBusInt32 uint32_t
  | DBusBoolean bool
  | DBusByteArray "uint8_t list"

datatype DBusMessageType = MethodCall | MethodReturn | ErrorMessage | Signal

record DBusMessage =
  msg_type :: DBusMessageType
  msg_sender :: "string option"
  msg_path :: "string option"
  msg_interface :: "string option"
  msg_member :: "string option"
  msg_args :: "DBusArg list"

text \<open>
  The names of the daemon's D-Bus vocabulary. The source takes them from wpantund's
  headers wpan-dbus-v1.h and wpan-properties.h and from spinel.h, which belong to another
  project; the values below are the ones of those headers. The properties proved use
  only that the property names differ from each other.
\<close>

definition WPANTUND_DBUS_APIv1_INTERFACE :: string where
  "WPANTUND_DBUS_APIv1_INTERFACE = ''org.wpantund.v1''"

definition WPANTUND_DBUS_PATH :: string where
  "WPANTUND_DBUS_PATH = ''/org/wpantund''"

definition WPANTUND_IF_SIGNAL_PROP_CHANGED :: string where
  "WPANTUND_IF_SIGNAL_PROP_CHANGED = ''PropChanged''"

definition WPANTUND_IF_CMD_PROP_GET :: string where
  "WPANTUND_IF_CMD_PROP_GET = ''PropGet''"

definition WPANTUND_IF_CMD_PROP_SET :: string where
  "WPANTUND_IF_CMD_PROP_SET = ''PropSet''"

definition kWPANTUNDProperty_TmfProxyStream :: string where
  "kWPANTUNDProperty_TmfProxyStream = ''TmfProxy:Stream''"

definition kWPANTUNDProperty_TmfProxyEnabled :: string where
  "kWPANTUNDProperty_TmfProxyEnabled = ''TmfProxy:Enabled''"

definition kWPANTUNDProperty_NCPState :: string where
  "kWPANTUNDProperty_NCPState = ''NCP:State''"

definition kWPANTUNDProperty_NCPHardwareAddress :: string where
  "kWPANTUNDProperty_NCPHardwareAddress = ''NCP:HardwareAddress''"

definition kWPANTUNDProperty_NetworkName :: string where
  "kWPANTUNDProperty_NetworkName = ''Network:Name''"

definition kWPANTUNDProperty_NetworkXPANID :: string where
  "kWPANTUNDProperty_NetworkXPANID = ''Network:XPANID''"

definition kWPANTUNDProperty_NetworkPSKc :: string where
  "kWPANTUNDProperty_NetworkPSKc = ''Network:PSKc''"

definition SPINEL_STATUS_OK :: uint32_t where
  "SPINEL_STATUS_OK = 0"

text \<open>
  Modelled from the spec: the sizes kSizeExtPanId, kSizePSKc and kSizeEui64 are declared
  in headers of the repository that are not among the sources; the spec fixes them
  ("extended-PAN-id = 8 bytes; network-credential = 16 bytes; hardware address = 8
  bytes").
\<close>

definition kSizeExtPanId :: nat where
  "kSizeExtPanId = 8"

definition kSizePSKc :: nat where
  "kSizePSKc = 16"

definition kSizeEui64 :: nat where
  "kSizeEui64 = 8"

subsection \<open>Results, faults and effects\<close>

datatype otbrError = OTBR_ERROR_NONE | OTBR_ERROR_ERRNO | OTBR_ERROR_DBUS

datatype DBusHandlerResult =
    DBUS_HANDLER_RESULT_HANDLED
  | DBUS_HANDLER_RESULT_NOT_YET_HANDLED

text \<open>
  Where the C++ leaves the language's defined behaviour the model stops with a fault:
  a read past the end of an array, a write past the end of a buffer, a libdbus accessor
  used on an argument of another type, a failed \<open>assert\<close>.
\<close>

datatype fault = OutOfBoundsRead | BufferOverflow | BadArgType | AssertionFailed

datatype event_kind =
    kEventExtPanId
  | kEventNetworkName
  | kEventPSKc
  | kEventThreadState
  | kEventTmfProxyStream
  | kEventUdpProxyStream

text \<open>
  What \<open>EventEmitter::Emit\<close> is called with. For the proxy datagram the arguments are the
  array the pointer refers to, the length, the locator and the port; the body of the
  datagram is the first \<open>len\<close> bytes of the array.
\<close>

datatype Event =
    EventTmfProxyStream "uint8_t list" uint16_t uint16_t uint16_t
  | EventThreadState bool
  | EventNetworkName string
  | EventExtPanId "uint8_t list"
  | EventPSKc "uint8_t list"

fun datagram_body :: "Event \<Rightarrow> uint8_t list" where
  "datagram_body (EventTmfProxyStream buf len locator port) = take (unat len) buf"
| "datagram_body _ = []"

record DBusMethodCall =
  call_destination :: string
  call_path :: string
  call_interface :: string
  call_member :: string
  call_args :: "DBusArg list"

text \<open>The calls that leave the controller, in the order they are made.\<close>

datatype Effect =
    Emit Event
  | LookupDBusName string
  | ConnectionSend DBusMethodCall
  | SendWithReplyAndBlock DBusMethodCall

datatype ByteOrder = LITTLE_ENDIAN | BIG_ENDIAN

text \<open>
  The controller's fields (\<open>mInterfaceName\<close>, \<open>mInterfaceDBusName\<close>,
  \<open>mInterfaceDBusPath\<close>, \<open>mEui64\<close>), \<open>errno\<close>, the byte order the file is compiled for,
  the trace of outgoing calls, and the answers of the environment: what
  \<open>lookup_dbus_name_from_interface\<close> returns and leaves in the name buffer (given the
  buffer and the interface name), whether libdbus can allocate a message, append its
  arguments and queue it, and the replies the next blocking calls receive (\<open>None\<close> is a
  call that fails with a D-Bus error; so is an exhausted list).
\<close>

record ControllerWpantund =
  mInterfaceName :: string
  mInterfaceDBusName :: string
  mInterfaceDBusPath :: string
  mEui64 :: "uint8_t list"
  errno :: int
  BYTE_ORDER :: ByteOrder
  trace :: "Effect list"
  lookup_dbus_name_from_interface :: "string \<Rightarrow> string \<Rightarrow> int \<times> string"
  new_method_call_ok :: bool
  append_args_ok :: bool
  connection_send_ok :: bool
  replies :: "DBusArg list option list"

definition ENOENT :: int where "ENOENT = 2"
definition ENOMEM :: int where "ENOMEM = 12"
definition ENODEV :: int where "ENODEV = 19"
definition EINVAL :: int where "EINVAL = 22"
definition EREMOTEIO :: int where "EREMOTEIO = 121"

definition emit :: "Event \<Rightarrow> ControllerWpantund \<Rightarrow> ControllerWpantund" where
  "emit e s = s\<lparr>trace := trace s @ [Emit e]\<rparr>"

definition emitted :: "ControllerWpantund \<Rightarrow> Event list" where
  "emitted s = concat (map (\<lambda>x. case x of Emit e \<Rightarrow> [e] | _ \<Rightarrow> []) (trace s))"

subsection \<open>ParseEvent\<close>

definition bind_fault :: "fault + 'a \<Rightarrow> ('a \<Rightarrow> fault + 'b) \<Rightarrow> fault + 'b" where
  "bind_fault m f = (case m of Inl e \<Rightarrow> Inl e | Inr x \<Rightarrow> f x)"

text \<open>
  \<open>buf[--len]\<close> with \<open>uint16_t len\<close>: the length is decremented first, wrapping from 0 to
  65535, and the byte at the new index is read. The array has \<open>length buf\<close> elements.
\<close>

definition pre_dec_read :: "uint8_t list \<Rightarrow> uint16_t \<Rightarrow> fault + (uint8_t \<times> uint16_t)" where
  "pre_dec_read buf len =
     (let len' = len - 1
      in if unat len' < length buf then Inr (buf ! unat len', len') else Inl OutOfBoundsRead)"

text \<open>
  The proxy datagram branch, lines 116 to 133: \<open>len\<close> is the element count cast to
  \<open>uint16_t\<close>; port and locator are read from the end, low byte first.
\<close>

definition decode_proxy_stream ::
    "uint8_t list \<Rightarrow> fault + (uint16_t \<times> uint16_t \<times> uint16_t)" where
  "decode_proxy_stream buf =
     (let len = (of_nat (length buf) :: uint16_t) in
      bind_fault (pre_dec_read buf len) (\<lambda>(b0, len).
      let port = (ucast b0 :: uint16_t) in
      bind_fault (pre_dec_read buf len) (\<lambda>(b1, len).
      let port = port OR push_bit 8 (ucast b1) in
      bind_fault (pre_dec_read buf len) (\<lambda>(b2, len).
      let locator = (ucast b2 :: uint16_t) in
      bind_fault (pre_dec_read buf len) (\<lambda>(b3, len).
      let locator = locator OR push_bit 8 (ucast b3) in
      Inr (len, locator, port))))))"

text \<open>
  The object representation of a \<open>uint64_t\<close> in memory: \<open>dbus_message_iter_get_basic\<close>
  stores the integer in host byte order, and the code then works on the bytes through
  \<open>uint8_t\<close> pointers.
\<close>

definition le_bytes :: "uint64_t \<Rightarrow> uint8_t list" where
  "le_bytes w = map (\<lambda>i. ucast (drop_bit (8 * i) w)) [0..<8]"

definition store_uint64 :: "ByteOrder \<Rightarrow> uint64_t \<Rightarrow> uint8_t list" where
  "store_uint64 order w = (case order of LITTLE_ENDIAN \<Rightarrow> le_bytes w | BIG_ENDIAN \<Rightarrow> rev (le_bytes w))"

text \<open>
  The loop of lines 163 to 168: \<open>p\<close> and \<open>q\<close> are offsets into the eight bytes, the loop
  swaps \<open>*p\<close> and \<open>*q\<close> while \<open>p < q\<close>.
\<close>

function swap_loop :: "nat \<Rightarrow> nat \<Rightarrow> uint8_t list \<Rightarrow> uint8_t list" where
  "swap_loop p q mem =
     (if p < q
      then (let tmp = mem ! p; mem = mem[p := mem ! q]; mem = mem[q := tmp]
            in swap_loop (p + 1) (q - 1) mem)
      else mem)"
  by pat_completeness auto
termination
  by (relation "measure (\<lambda>(p, q, mem). q - p)") auto

definition convert_to_network_endian :: "ByteOrder \<Rightarrow> uint8_t list \<Rightarrow> uint8_t list" where
  "convert_to_network_endian order mem =
     (case order of
        LITTLE_ENDIAN \<Rightarrow> swap_loop 0 (length mem - 1) mem
      | BIG_ENDIAN \<Rightarrow> mem)"

text \<open>
  \<open>ParseEvent(aKey, aIter)\<close>: the iterator is the list of arguments from the cursor on.
  The result is the returned error, or a fault, and the state with the emitted events.
  The string accessor on an argument that is no string, and \<open>recurse\<close> on an argument
  that is no array, are faults.
\<close>

definition ParseEvent ::
    "string \<Rightarrow> DBusArg list \<Rightarrow> ControllerWpantund \<Rightarrow> (fault + otbrError) \<times> ControllerWpantund" where
  "ParseEvent aKey aIter s =
     (if aKey = kWPANTUNDProperty_TmfProxyStream then
        (case aIter of
           DBusByteArray buf # _ \<Rightarrow>
             (case decode_proxy_stream buf of
                Inl f \<Rightarrow> (Inl f, s)
              | Inr (len, locator, port) \<Rightarrow>
                  (Inr OTBR_ERROR_NONE, emit (EventTmfProxyStream buf len locator port) s))
         | _ \<Rightarrow> (Inl BadArgType, s))
      else if aKey = kWPANTUNDProperty_NCPState then
        (case aIter of
           DBusString state # _ \<Rightarrow>
             (Inr OTBR_ERROR_NONE, emit (EventThreadState (state = ''associated'')) s)
         | _ \<Rightarrow> (Inl BadArgType, s))
      else if aKey = kWPANTUNDProperty_NetworkName then
        (case aIter of
           DBusString networkName # _ \<Rightarrow>
             (Inr OTBR_ERROR_NONE, emit (EventNetworkName networkName) s)
         | _ \<Rightarrow> (Inl BadArgType, s))
      else if aKey = kWPANTUNDProperty_NetworkXPANID then
        (case aIter of
           DBusUInt64 v # _ \<Rightarrow>
             (let xpanid = convert_to_network_endian (BYTE_ORDER s) (store_uint64 (BYTE_ORDER s) v)
              in (Inr OTBR_ERROR_NONE, emit (EventExtPanId xpanid) s))
         | DBusByteArray bytes # _ \<Rightarrow>
             (if length bytes = kSizeExtPanId
              then (Inr OTBR_ERROR_NONE, emit (EventExtPanId bytes) s)
              else (Inr OTBR_ERROR_DBUS, s))
         | _ \<Rightarrow>
             (Inr OTBR_ERROR_NONE, emit (EventExtPanId (store_uint64 (BYTE_ORDER s) 0)) s))
      else if aKey = kWPANTUNDProperty_NetworkPSKc then
        (case aIter of
           DBusByteArray pskc # _ \<Rightarrow>
             (if length pskc = kSizePSKc
              then (Inr OTBR_ERROR_NONE, emit (EventPSKc pskc) s)
              else (Inr OTBR_ERROR_DBUS, s))
         | _ \<Rightarrow> (Inl BadArgType, s))
      else (Inr OTBR_ERROR_NONE, s))"

subsection \<open>The macros of common/code_utils.hpp and the error codes\<close>

text \<open>
  Modelled from the spec: common/code_utils.hpp (the macros \<open>VerifyOrExit\<close> and
  \<open>SuccessOrExit\<close>) and the header that declares \<open>otbrError\<close> are not among the
  sources. \<open>SuccessOrExit(aStatus)\<close> jumps to \<open>exit\<close> when the status is not 0 and goes
  on when it is 0, which is what the spec's reading of the signal filter ("on any decode
  error the message is still marked handled") and of the status checks needs, and what
  \<open>GetEui64\<close> relies on when it returns the buffer only after \<open>GetProperty\<close> returned
  \<open>OTBR_ERROR_NONE\<close>. \<open>VerifyOrExit(aCondition, ...)\<close> runs its action and jumps to
  \<open>exit\<close> when the condition is false; it is written out as an \<open>if\<close> where it is
  used. \<open>OTBR_ERROR_NONE\<close> is 0, the other codes are not (\<open>Init\<close> reads \<open>if (ret)\<close> as
  failure).
\<close>

fun otbrError_value :: "otbrError \<Rightarrow> int" where
  "otbrError_value OTBR_ERROR_NONE = 0"
| "otbrError_value OTBR_ERROR_ERRNO = -1"
| "otbrError_value OTBR_ERROR_DBUS = -2"

definition SuccessOrExit :: "int \<Rightarrow> bool" where
  \<comment> \<open>True when the macro jumps to \<open>exit\<close>.\<close>
  "SuccessOrExit aStatus = (aStatus \<noteq> 0)"

subsection \<open>Outgoing calls\<close>

definition new_method_call :: "ControllerWpantund \<Rightarrow> string \<Rightarrow> DBusArg list \<Rightarrow> DBusMethodCall" where
  "new_method_call s member args =
     \<lparr>call_destination = mInterfaceDBusName s, call_path = mInterfaceDBusPath s,
      call_interface = WPANTUND_DBUS_APIv1_INTERFACE, call_member = member,
      call_args = args\<rparr>"

definition TmfProxyEnable :: "bool \<Rightarrow> ControllerWpantund \<Rightarrow> otbrError \<times> ControllerWpantund" where
  "TmfProxyEnable aEnable s =
     (if \<not> new_method_call_ok s then (OTBR_ERROR_ERRNO, s\<lparr>errno := ENOMEM\<rparr>)
      else if \<not> append_args_ok s then (OTBR_ERROR_ERRNO, s\<lparr>errno := EINVAL\<rparr>)
      else
        (let message = new_method_call s WPANTUND_IF_CMD_PROP_SET
               [DBusString kWPANTUNDProperty_TmfProxyEnabled, DBusBoolean aEnable];
             s = s\<lparr>trace := trace s @ [ConnectionSend message]\<rparr>
         in if \<not> connection_send_ok s then (OTBR_ERROR_ERRNO, s\<lparr>errno := ENOMEM\<rparr>)
            else (OTBR_ERROR_NONE, s)))"

text \<open>
  \<open>snprintf\<close> into \<open>mInterfaceDBusPath\<close> keeps at most one character less than the size
  of the buffer. The size is declared in the class, outside the source file, and is a
  parameter here.
\<close>

definition TmfProxyStart :: "nat \<Rightarrow> ControllerWpantund \<Rightarrow> otbrError \<times> ControllerWpantund" where
  "TmfProxyStart sizeof_path s =
     (let (rc, name) = lookup_dbus_name_from_interface s (mInterfaceDBusName s) (mInterfaceName s);
          s = s\<lparr>trace := trace s @ [LookupDBusName (mInterfaceName s)],
                mInterfaceDBusName := name\<rparr>
      in if rc \<noteq> 0 then (OTBR_ERROR_ERRNO, s\<lparr>errno := ENODEV\<rparr>)
         else TmfProxyEnable True
                (s\<lparr>mInterfaceDBusPath :=
                     take (sizeof_path - 1) (WPANTUND_DBUS_PATH @ ''/'' @ mInterfaceName s)\<rparr>))"

definition TmfProxyStop :: "ControllerWpantund \<Rightarrow> otbrError \<times> ControllerWpantund" where
  "TmfProxyStop s =
     (if mInterfaceDBusName s = [] then (OTBR_ERROR_NONE, s) else TmfProxyEnable False s)"

text \<open>
  Lines 338 to 346 of \<open>TmfProxySend\<close>: the vector of \<open>aLength + 4\<close> bytes. \<open>memcpy\<close>
  reads \<open>aLength\<close> bytes of the caller's buffer.
\<close>

definition TmfProxySend_data ::
    "uint8_t list \<Rightarrow> uint16_t \<Rightarrow> uint16_t \<Rightarrow> uint16_t \<Rightarrow> fault + uint8_t list" where
  "TmfProxySend_data aBuffer aLength aLocator aPort =
     (if length aBuffer < unat aLength then Inl OutOfBoundsRead
      else
        (let data = replicate (unat aLength + 2 + 2) (0 :: uint8_t);
             data = take (unat aLength) aBuffer @ drop (unat aLength) data;
             data = data[unat aLength := ucast (drop_bit 8 aLocator)];
             data = data[unat aLength + 1 := ucast (aLocator AND 0xff)];
             data = data[unat aLength + 2 := ucast (drop_bit 8 aPort)];
             data = data[unat aLength + 3 := ucast (aPort AND 0xff)]
         in Inr data))"

definition TmfProxySend ::
    "uint8_t list \<Rightarrow> uint16_t \<Rightarrow> uint16_t \<Rightarrow> uint16_t \<Rightarrow> ControllerWpantund
       \<Rightarrow> (fault + otbrError) \<times> ControllerWpantund" where
  "TmfProxySend aBuffer aLength aLocator aPort s =
     (case TmfProxySend_data aBuffer aLength aLocator aPort of
        Inl f \<Rightarrow> (Inl f, s)
      | Inr data \<Rightarrow>
          (if \<not> new_method_call_ok s then (Inr OTBR_ERROR_ERRNO, s\<lparr>errno := ENOMEM\<rparr>)
           else if \<not> append_args_ok s then (Inr OTBR_ERROR_ERRNO, s\<lparr>errno := EINVAL\<rparr>)
           else
             (let message = new_method_call s WPANTUND_IF_CMD_PROP_SET
                    [DBusString kWPANTUNDProperty_TmfProxyStream, DBusByteArray data];
                  s = s\<lparr>trace := trace s @ [ConnectionSend message]\<rparr>
              in if \<not> connection_send_ok s then (Inr OTBR_ERROR_ERRNO, s\<lparr>errno := ENOMEM\<rparr>)
                 else (Inr OTBR_ERROR_NONE, s))))"

subsection \<open>The signal filter\<close>

text \<open>\<open>strstr(haystack, needle) != NULL\<close>: the needle occurs in the haystack.\<close>

fun strstr :: "string \<Rightarrow> string \<Rightarrow> bool" where
  "strstr [] needle = (needle = [])"
| "strstr (c # cs) needle = (take (length needle) (c # cs) = needle \<or> strstr cs needle)"

text \<open>
  \<open>dbus_message_is_signal\<close>: a signal whose member is the given one and whose interface,
  when the message carries one, is the given one.
\<close>

definition dbus_message_is_signal :: "DBusMessage \<Rightarrow> string \<Rightarrow> string \<Rightarrow> bool" where
  "dbus_message_is_signal m iface member =
     (msg_type m = Signal \<and> msg_member m = Some member \<and>
      (msg_interface m = None \<or> msg_interface m = Some iface))"

definition name_changed :: "DBusMessage \<Rightarrow> ControllerWpantund \<Rightarrow> bool" where
  \<comment> \<open>The condition of line 84.\<close>
  "name_changed m s =
     (case (msg_sender m, msg_path m) of
        (Some sender, Some path) \<Rightarrow>
          sender \<noteq> mInterfaceDBusName s \<and> strstr path (mInterfaceName s)
      | _ \<Rightarrow> False)"

definition HandlePropertyChangedSignal ::
    "nat \<Rightarrow> DBusMessage \<Rightarrow> ControllerWpantund
       \<Rightarrow> (fault + DBusHandlerResult) \<times> ControllerWpantund" where
  "HandlePropertyChangedSignal sizeof_path aMessage s =
     (let s = (if name_changed aMessage s then snd (TmfProxyStart sizeof_path s) else s)
      in if \<not> dbus_message_is_signal aMessage WPANTUND_DBUS_APIv1_INTERFACE
                 WPANTUND_IF_SIGNAL_PROP_CHANGED
         then (Inr DBUS_HANDLER_RESULT_NOT_YET_HANDLED, s)
         else
           (case msg_args aMessage of
              [] \<Rightarrow> (Inr DBUS_HANDLER_RESULT_NOT_YET_HANDLED, s)
            | DBusString key # iter \<Rightarrow>
                (case ParseEvent key iter s of
                   (Inl f, s) \<Rightarrow> (Inl f, s)
                 | (Inr ret, s) \<Rightarrow>
                     (if SuccessOrExit (of_bool (OTBR_ERROR_NONE = ret))
                      then (Inr DBUS_HANDLER_RESULT_NOT_YET_HANDLED, s)
                      else (Inr DBUS_HANDLER_RESULT_HANDLED, s)))
            | _ \<Rightarrow> (Inl BadArgType, s)))"

subsection \<open>Synchronous requests\<close>

text \<open>
  \<open>dbus_connection_send_with_reply_and_block\<close>: the call is recorded and the next answer
  of the environment is taken.
\<close>

definition send_with_reply_and_block ::
    "DBusMethodCall \<Rightarrow> ControllerWpantund \<Rightarrow> DBusArg list option \<times> ControllerWpantund" where
  "send_with_reply_and_block message s =
     (let s = s\<lparr>trace := trace s @ [SendWithReplyAndBlock message]\<rparr>
      in case replies s of
           [] \<Rightarrow> (None, s)
         | reply # rest \<Rightarrow> (reply, s\<lparr>replies := rest\<rparr>))"

definition RequestProperty ::
    "string \<Rightarrow> ControllerWpantund \<Rightarrow> DBusArg list option \<times> ControllerWpantund" where
  "RequestProperty aKey s =
     (if \<not> new_method_call_ok s then (None, s\<lparr>errno := ENOMEM\<rparr>)
      else if \<not> append_args_ok s then (None, s\<lparr>errno := EINVAL\<rparr>)
      else
        (case send_with_reply_and_block
                (new_method_call s WPANTUND_IF_CMD_PROP_GET [DBusString aKey]) s of
           (None, s) \<Rightarrow> (None, s\<lparr>errno := EREMOTEIO\<rparr>)
         | (Some reply, s) \<Rightarrow> (Some reply, s)))"

fun event_key :: "event_kind \<Rightarrow> string option" where
  "event_key kEventExtPanId = Some kWPANTUNDProperty_NetworkXPANID"
| "event_key kEventThreadState = Some kWPANTUNDProperty_NCPState"
| "event_key kEventNetworkName = Some kWPANTUNDProperty_NetworkName"
| "event_key kEventPSKc = Some kWPANTUNDProperty_NetworkPSKc"
| "event_key _ = None"

text \<open>
  \<open>dbus_message_iter_get_basic\<close> into a \<open>uint32_t\<close>: the value of a four-byte basic
  argument; any other argument does not fit the variable.
\<close>

fun get_basic_uint32 :: "DBusArg \<Rightarrow> fault + uint32_t" where
  "get_basic_uint32 (DBusUInt32 v) = Inr v"
| "get_basic_uint32 (DBusInt32 v) = Inr v"
| "get_basic_uint32 (DBusBoolean b) = Inr (of_bool b)"
| "get_basic_uint32 _ = Inl BadArgType"

definition RequestEvent ::
    "event_kind \<Rightarrow> ControllerWpantund \<Rightarrow> (fault + otbrError) \<times> ControllerWpantund" where
  "RequestEvent aEvent s =
     (case event_key aEvent of
        None \<Rightarrow> (Inr OTBR_ERROR_ERRNO, s\<lparr>errno := EINVAL\<rparr>)
      | Some key \<Rightarrow>
          (if \<not> new_method_call_ok s then (Inr OTBR_ERROR_ERRNO, s\<lparr>errno := ENOMEM\<rparr>)
           else if \<not> append_args_ok s then (Inr OTBR_ERROR_ERRNO, s\<lparr>errno := EINVAL\<rparr>)
           else
             (case send_with_reply_and_block
                     (new_method_call s WPANTUND_IF_CMD_PROP_GET [DBusString key]) s of
                (None, s) \<Rightarrow> (Inr OTBR_ERROR_DBUS, s)
              | (Some [], s) \<Rightarrow> (Inr OTBR_ERROR_ERRNO, s\<lparr>errno := ENOENT\<rparr>)
              | (Some (first # iter), s) \<Rightarrow>
                  (case get_basic_uint32 first of
                     Inl f \<Rightarrow> (Inl f, s)
                   | Inr status \<Rightarrow>
                       (if status \<noteq> SPINEL_STATUS_OK
                        then (Inr OTBR_ERROR_ERRNO, s\<lparr>errno := EREMOTEIO\<rparr>)
                        else ParseEvent key iter s)))))"

text \<open>
  \<open>GetProperty(aKey, aBuffer, aSize)\<close>: the buffer is given by its content (its length
  is the room it has), the result is the error code, the buffer and \<open>aSize\<close> afterwards.
  \<open>dbus_message_get_args\<close> accepts a reply that starts with an INT32 and an array of
  bytes. \<open>memcpy\<close> writes \<open>count\<close> bytes whatever the room.
\<close>

definition GetProperty ::
    "string \<Rightarrow> uint8_t list \<Rightarrow> nat \<Rightarrow> ControllerWpantund
       \<Rightarrow> (fault + otbrError \<times> uint8_t list \<times> nat) \<times> ControllerWpantund" where
  "GetProperty aKey aBuffer aSize s =
     (case RequestProperty aKey s of
        (None, s) \<Rightarrow> (Inr (OTBR_ERROR_ERRNO, aBuffer, aSize), s)
      | (Some reply, s) \<Rightarrow>
          (case reply of
             DBusInt32 status # DBusByteArray buffer # _ \<Rightarrow>
               (if status \<noteq> SPINEL_STATUS_OK
                then (Inr (OTBR_ERROR_ERRNO, aBuffer, aSize), s\<lparr>errno := EINVAL\<rparr>)
                else if length aBuffer < length buffer then (Inl BufferOverflow, s)
                else (Inr (OTBR_ERROR_NONE,
                           buffer @ drop (length buffer) aBuffer, length buffer), s))
           | _ \<Rightarrow> (Inr (OTBR_ERROR_ERRNO, aBuffer, aSize), s\<lparr>errno := EINVAL\<rparr>)))"

text \<open>
  \<open>GetEui64\<close> returns a pointer to \<open>mEui64\<close> or \<open>NULL\<close>: the content the pointer refers
  to, or \<open>None\<close>. The \<open>assert\<close> stops the program when it fails.
\<close>

definition GetEui64 ::
    "ControllerWpantund \<Rightarrow> (fault + uint8_t list option) \<times> ControllerWpantund" where
  "GetEui64 s =
     (case GetProperty kWPANTUNDProperty_NCPHardwareAddress (mEui64 s) 0 s of
        (Inl f, s) \<Rightarrow> (Inl f, s)
      | (Inr (err, buffer, size'), s) \<Rightarrow>
          (let s = s\<lparr>mEui64 := buffer\<rparr>
           in if SuccessOrExit (otbrError_value err) then (Inr None, s)
              else if size' \<noteq> kSizeEui64 then (Inl AssertionFailed, s)
              else (Inr (Some (mEui64 s)), s)))"

text \<open>
  The constructor sets the daemon's bus name to the empty string and copies the
  interface name with \<open>strncpy\<close>; the other fields keep what the memory held.
\<close>

definition ControllerWpantund_new ::
    "nat \<Rightarrow> string \<Rightarrow> ControllerWpantund \<Rightarrow> ControllerWpantund" where
  "ControllerWpantund_new sizeof_name aInterfaceName s =
     s\<lparr>mInterfaceDBusName := [], mInterfaceName := take sizeof_name aInterfaceName\<rparr>"

subsection \<open>Observations on a run\<close>

text \<open>
  \<open>TmfProxyStart\<close> is the only function that calls \<open>lookup_dbus_name_from_interface\<close>,
  and it does so first, once: the lookups in the trace count the start attempts.
  \<open>new_events s s'\<close> are the events emitted between \<open>s\<close> and \<open>s'\<close>.
\<close>

fun is_lookup :: "Effect \<Rightarrow> bool" where
  "is_lookup (LookupDBusName _) = True"
| "is_lookup _ = False"

definition start_attempts :: "ControllerWpantund \<Rightarrow> nat" where
  "start_attempts s = length (filter is_lookup (trace s))"

definition new_events :: "ControllerWpantund \<Rightarrow> ControllerWpantund \<Rightarrow> Event list" where
  "new_events s s' = drop (length (emitted s)) (emitted s')"

text \<open>
  The 64-bit value whose big-endian bytes are \<open>b0 .. b7\<close>, written out; a controller
  with the daemon bound at \<open>:1.42\<close> on a little-endian host, whose environment finds
  the daemon for \<open>wpan0\<close> at \<open>:1.77\<close>; and a property-changed signal for that
  interface.
\<close>

abbreviation uint64_of_be ::
    "uint8_t \<Rightarrow> uint8_t \<Rightarrow> uint8_t \<Rightarrow> uint8_t \<Rightarrow> uint8_t \<Rightarrow> uint8_t \<Rightarrow> uint8_t \<Rightarrow> uint8_t
       \<Rightarrow> uint64_t" where
  "uint64_of_be b0 b1 b2 b3 b4 b5 b6 b7 \<equiv>
     push_bit 56 (ucast b0) OR push_bit 48 (ucast b1) OR push_bit 40 (ucast b2) OR
     push_bit 32 (ucast b3) OR push_bit 24 (ucast b4) OR push_bit 16 (ucast b5) OR
     push_bit 8 (ucast b6) OR ucast b7"

definition example_controller :: ControllerWpantund where
  "example_controller =
     \<lparr>mInterfaceName = ''wpan0'', mInterfaceDBusName = '':1.42'',
      mInterfaceDBusPath = ''/org/wpantund/wpan0'', mEui64 = [0, 0, 0, 0, 0, 0, 0, 0],
      errno = 0, BYTE_ORDER = LITTLE_ENDIAN, trace = [],
      lookup_dbus_name_from_interface =
        (\<lambda>buf iface. if iface = ''wpan0'' then (0, '':1.77'') else (1, [])),
      new_method_call_ok = True, append_args_ok = True, connection_send_ok = True,
      replies = []\<rparr>"

definition property_changed :: "string \<Rightarrow> string \<Rightarrow> DBusArg list \<Rightarrow> DBusMessage" where
  "property_changed sender key payload =
     \<lparr>msg_type = Signal, msg_sender = Some sender, msg_path = Some ''/org/wpantund/wpan0'',
      msg_interface = Some WPANTUND_DBUS_APIv1_INTERFACE,
      msg_member = Some WPANTUND_IF_SIGNAL_PROP_CHANGED,
      msg_args = DBusString key # payload\<rparr>"

text \<open>
  The same controller with three replies waiting: two hardware addresses and a reply of
  three bytes.
\<close>

definition eui64_controller :: ControllerWpantund where
  "eui64_controller =
     example_controller\<lparr>replies :=
       [Some [DBusInt32 0, DBusByteArray [1, 2, 3, 4, 5, 6, 7, 8]],
        Some [DBusInt32 0, DBusByteArray [8, 7, 6, 5, 4, 3, 2, 1]],
        Some [DBusInt32 0, DBusByteArray [9, 9, 9]]]\<rparr>"

section \<open>Properties\<close>

subsection \<open>Auxiliary facts\<close>

lemma recombine_bytes:
  "(ucast (ucast (x AND 0xff :: uint16_t) :: uint8_t) :: uint16_t) OR
     push_bit 8 (ucast (ucast (drop_bit 8 x) :: uint8_t)) = x"
proof -
  have m: "(0xff :: uint16_t) = mask 8"
    by (simp add: mask_eq_exp_minus_1)
  show ?thesis
    unfolding m by (rule bit_word_eqI) (auto simp add: bit_simps)
qed

lemma decode_short:
  assumes "length buf < 4"
  shows "decode_proxy_stream buf = Inl OutOfBoundsRead"
proof -
  consider "buf = []" | a where "buf = [a]" | a b where "buf = [a, b]"
    | a b c where "buf = [a, b, c]"
    using assms
    by (cases buf; cases "tl buf"; cases "tl (tl buf)"; cases "tl (tl (tl buf))") auto
  then show ?thesis
    by cases (simp_all add: decode_proxy_stream_def pre_dec_read_def bind_fault_def Let_def unsigned_minus_1_eq_mask mask_eq_exp_minus_1)
qed

lemma ParseEvent_start_attempts:
  "start_attempts (snd (ParseEvent k it s)) = start_attempts s"
  by (auto simp add: ParseEvent_def start_attempts_def emit_def Let_def
      split: list.splits DBusArg.splits sum.splits prod.splits)

lemma ParseEvent_new_events:
  "BYTE_ORDER t = BYTE_ORDER s \<Longrightarrow>
     new_events s (snd (ParseEvent k it s)) = new_events t (snd (ParseEvent k it t))"
  by (auto simp add: ParseEvent_def new_events_def emitted_def emit_def Let_def
      split: list.splits DBusArg.splits sum.splits prod.splits)

lemma TmfProxyEnable_trace:
  "filter is_lookup (trace (snd (TmfProxyEnable b s))) = filter is_lookup (trace s)"
  by (simp add: TmfProxyEnable_def Let_def)

lemma TmfProxyStart_start_attempts:
  "start_attempts (snd (TmfProxyStart sz s)) = Suc (start_attempts s)"
  by (simp add: TmfProxyStart_def start_attempts_def TmfProxyEnable_trace Let_def
      split: prod.splits)

lemma TmfProxyStart_emitted:
  "emitted (snd (TmfProxyStart sz s)) = emitted s \<and>
   BYTE_ORDER (snd (TmfProxyStart sz s)) = BYTE_ORDER s"
  by (simp add: TmfProxyStart_def TmfProxyEnable_def emitted_def Let_def split: prod.splits)


lemma pre_dec_read_Suc:
  "k < 65536 \<Longrightarrow> k < length buf \<Longrightarrow> pre_dec_read buf (of_nat (Suc k)) = Inr (buf ! k, of_nat k)"
  by (simp add: pre_dec_read_def Let_def unat_of_nat)

lemma four_zeros: "drop n (replicate (n + 2 + 2) (0::uint8_t)) = [0, 0, 0, 0]"
proof -
  have a: "n + 2 + 2 - n = Suc (Suc (Suc (Suc 0)))"
    by arith
  show ?thesis
    unfolding drop_replicate a by simp
qed

lemma TmfProxySend_data_layout:
  assumes "unat aLength = length B"
  shows "TmfProxySend_data B aLength L P =
   Inr (B @ [ucast (drop_bit 8 L), ucast (L AND 0xff), ucast (drop_bit 8 P), ucast (P AND 0xff)])"
proof -
  have d: "drop (unat aLength) (replicate (unat aLength + 2 + 2) (0::uint8_t)) = [0, 0, 0, 0]"
    by (rule four_zeros)
  have t: "take (unat aLength) B = B"
    using assms by simp
  have n: "\<not> length B < unat aLength"
    using assms by simp
  show ?thesis
    unfolding TmfProxySend_data_def Let_def d t if_not_P [OF n]
    by (simp add: assms list_update_append numeral_2_eq_2 numeral_3_eq_3)
qed

lemma decode_proxy_stream_suffix:
  assumes "length B + 4 \<le> 65536"
  shows "decode_proxy_stream (B @ [ucast (drop_bit 8 L), ucast (L AND 0xff), ucast (drop_bit 8 P), ucast (P AND 0xff)])
    = Inr (of_nat (length B), L, P)"
proof -
  let ?buf = "B @ [ucast (drop_bit 8 L), ucast (L AND 0xff), ucast (drop_bit 8 P), ucast (P AND 0xff)]"
  have len: "length ?buf = Suc (Suc (Suc (Suc (length B))))" by simp
  have r0: "pre_dec_read ?buf (of_nat (Suc (Suc (Suc (Suc (length B)))))) = Inr (ucast (P AND 0xff), of_nat (Suc (Suc (Suc (length B)))))"
    using assms pre_dec_read_Suc[of "Suc (Suc (Suc (length B)))" ?buf] by (simp add: nth_append)
  have r1: "pre_dec_read ?buf (of_nat (Suc (Suc (Suc (length B))))) = Inr (ucast (drop_bit 8 P), of_nat (Suc (Suc (length B))))"
    using assms pre_dec_read_Suc[of "Suc (Suc (length B))" ?buf] by (simp add: nth_append)
  have r2: "pre_dec_read ?buf (of_nat (Suc (Suc (length B)))) = Inr (ucast (L AND 0xff), of_nat (Suc (length B)))"
    using assms pre_dec_read_Suc[of "Suc (length B)" ?buf] by (simp add: nth_append)
  have r3: "pre_dec_read ?buf (of_nat (Suc (length B))) = Inr (ucast (drop_bit 8 L), of_nat (length B))"
    using assms pre_dec_read_Suc[of "length B" ?buf] by (simp add: nth_append)
  show ?thesis
    unfolding decode_proxy_stream_def len Let_def
    by (simp only: r0 r1 r2 r3 bind_fault_def sum.case prod.case recombine_bytes)
qed

lemma emit_inject: "emit e s = emit e' s \<longleftrightarrow> e = e'"
proof
  assume "emit e s = emit e' s"
  then have "trace (emit e s) = trace (emit e' s)" by simp
  then show "e = e'" by (simp add: emit_def)
qed simp

lemma ParseEvent_short_datagram:
  "length buf < 4 \<Longrightarrow>
     ParseEvent kWPANTUNDProperty_TmfProxyStream (DBusByteArray buf # iter) s =
       (Inl OutOfBoundsRead, s)"
  by (simp add: ParseEvent_def decode_short)

lemma HandlePropertyChangedSignal_signal:
  assumes "dbus_message_is_signal m WPANTUND_DBUS_APIv1_INTERFACE WPANTUND_IF_SIGNAL_PROP_CHANGED"
    and "msg_args m = DBusString key # iter"
    and "\<not> name_changed m s"
    and "fst (ParseEvent key iter s) = Inr ret"
  shows "fst (HandlePropertyChangedSignal sz m s) =
     Inr (if ret = OTBR_ERROR_NONE then DBUS_HANDLER_RESULT_NOT_YET_HANDLED
          else DBUS_HANDLER_RESULT_HANDLED)"
  using assms
  by (auto simp add: HandlePropertyChangedSignal_def SuccessOrExit_def Let_def
      split: prod.splits sum.splits)

lemma ParseEvent_start_attempts_pair:
  "ParseEvent k it s = (r, s') \<Longrightarrow> start_attempts s' = start_attempts s"
  using ParseEvent_start_attempts [of k it s] by simp

lemma swap8:
  "swap_loop 0 7 [a0, a1, a2, a3, a4, a5, a6, a7] = [a7, a6, a5, a4, a3, a2, a1, a0]"
  by (simp add: Let_def)

lemma le_bytes_8:
  "le_bytes w = [ucast w, ucast (drop_bit 8 w), ucast (drop_bit 16 w), ucast (drop_bit 24 w),
     ucast (drop_bit 32 w), ucast (drop_bit 40 w), ucast (drop_bit 48 w), ucast (drop_bit 56 w)]"
  by (simp add: le_bytes_def upt_rec)

lemma xpanid_memory:
  "convert_to_network_endian order (store_uint64 order w) = rev (le_bytes w)"
  by (cases order) (simp_all add: convert_to_network_endian_def store_uint64_def le_bytes_8 swap8)

lemma be_bytes:
  "(ucast (uint64_of_be b0 b1 b2 b3 b4 b5 b6 b7) :: uint8_t) = b7"
  "(ucast (drop_bit 8 (uint64_of_be b0 b1 b2 b3 b4 b5 b6 b7)) :: uint8_t) = b6"
  "(ucast (drop_bit 16 (uint64_of_be b0 b1 b2 b3 b4 b5 b6 b7)) :: uint8_t) = b5"
  "(ucast (drop_bit 24 (uint64_of_be b0 b1 b2 b3 b4 b5 b6 b7)) :: uint8_t) = b4"
  "(ucast (drop_bit 32 (uint64_of_be b0 b1 b2 b3 b4 b5 b6 b7)) :: uint8_t) = b3"
  "(ucast (drop_bit 40 (uint64_of_be b0 b1 b2 b3 b4 b5 b6 b7)) :: uint8_t) = b2"
  "(ucast (drop_bit 48 (uint64_of_be b0 b1 b2 b3 b4 b5 b6 b7)) :: uint8_t) = b1"
  "(ucast (drop_bit 56 (uint64_of_be b0 b1 b2 b3 b4 b5 b6 b7)) :: uint8_t) = b0"
  by (rule bit_word_eqI, auto simp add: bit_simps dest: bit_imp_le_length)+

lemma long_nth:
  "(replicate 65533 (0::uint8_t) @ [0x12, 0x34, 0x56, 0x78]) ! 0 = 0"
  "(replicate 65533 (0::uint8_t) @ [0x12, 0x34, 0x56, 0x78]) ! 65535 = 0x56"
  "(replicate 65533 (0::uint8_t) @ [0x12, 0x34, 0x56, 0x78]) ! 65534 = 0x34"
  "(replicate 65533 (0::uint8_t) @ [0x12, 0x34, 0x56, 0x78]) ! 65533 = 0x12"
  "length (replicate 65533 (0::uint8_t) @ [0x12, 0x34, 0x56, 0x78]) = 65537"
  by (simp_all add: nth_append)

lemma long_decode:
  "decode_proxy_stream (replicate 65533 0 @ [0x12, 0x34, 0x56, 0x78]) = Inr (65533, 0x1234, 0x5600)"
  unfolding decode_proxy_stream_def pre_dec_read_def Let_def long_nth bind_fault_def
  by (simp add: long_nth)

lemma send_emitted:
  "emitted (snd (send_with_reply_and_block c s)) = emitted s \<and>
   BYTE_ORDER (snd (send_with_reply_and_block c s)) = BYTE_ORDER s"
  by (simp add: send_with_reply_and_block_def emitted_def Let_def split: list.splits)

lemma HandlePropertyChangedSignal_snd:
  assumes "dbus_message_is_signal m WPANTUND_DBUS_APIv1_INTERFACE WPANTUND_IF_SIGNAL_PROP_CHANGED"
    and "msg_args m = DBusString key # iter"
  shows "snd (HandlePropertyChangedSignal sz m t) =
     snd (ParseEvent key iter (if name_changed m t then snd (TmfProxyStart sz t) else t))"
  using assms
  by (simp add: HandlePropertyChangedSignal_def Let_def split: prod.splits sum.splits)

lemma GetEui64_first:
  "GetEui64 eui64_controller =
     (Inr (Some [1, 2, 3, 4, 5, 6, 7, 8]),
      eui64_controller\<lparr>trace := [SendWithReplyAndBlock
              (new_method_call eui64_controller WPANTUND_IF_CMD_PROP_GET
                 [DBusString kWPANTUNDProperty_NCPHardwareAddress])],
        replies := [Some [DBusInt32 0, DBusByteArray [8, 7, 6, 5, 4, 3, 2, 1]],
                    Some [DBusInt32 0, DBusByteArray [9, 9, 9]]],
        mEui64 := [1, 2, 3, 4, 5, 6, 7, 8]\<rparr>)"
  by (simp add: GetEui64_def GetProperty_def RequestProperty_def send_with_reply_and_block_def
      SuccessOrExit_def kSizeEui64_def Let_def eui64_controller_def example_controller_def
      SPINEL_STATUS_OK_def)

lemma GetEui64_short_reply_example:
  "fst (GetEui64 (eui64_controller\<lparr>replies := [Some [DBusInt32 0, DBusByteArray [9, 9, 9]]]\<rparr>))
     = Inl AssertionFailed \<and>
   mEui64 (snd (GetEui64 (eui64_controller\<lparr>replies := [Some [DBusInt32 0, DBusByteArray [9, 9, 9]]]\<rparr>)))
     = [9, 9, 9, 0, 0, 0, 0, 0]"
  by (simp add: GetEui64_def GetProperty_def RequestProperty_def send_with_reply_and_block_def
      SuccessOrExit_def kSizeEui64_def Let_def eui64_controller_def example_controller_def
      SPINEL_STATUS_OK_def)

lemma GetEui64_trace:
  "trace (snd (GetEui64 s)) =
     (if new_method_call_ok s \<and> append_args_ok s
      then trace s @ [SendWithReplyAndBlock
             (new_method_call s WPANTUND_IF_CMD_PROP_GET
                [DBusString kWPANTUNDProperty_NCPHardwareAddress])]
      else trace s)"
  by (simp add: GetEui64_def GetProperty_def RequestProperty_def send_with_reply_and_block_def
      Let_def split: list.splits option.splits DBusArg.splits)

subsection \<open>Stop without a binding\<close>

text \<open>
  C8. \<open>TmfProxyStop\<close> on a controller whose daemon bus name is still empty returns
  \<open>OTBR_ERROR_NONE\<close> and leaves the whole state as it was: nothing is sent on the bus,
  nothing is looked up, \<open>errno\<close> is untouched.
\<close>

theorem TmfProxyStop_unbound_noop:
  "mInterfaceDBusName s = [] \<Longrightarrow> TmfProxyStop s = (OTBR_ERROR_NONE, s)"
  by (simp add: TmfProxyStop_def)

theorem TmfProxyStop_unbound_noop_witness:
  "mInterfaceDBusName (ControllerWpantund_new 16 ''wpan0'' example_controller) = [] \<and>
   TmfProxyStop (ControllerWpantund_new 16 ''wpan0'' example_controller) =
     (OTBR_ERROR_NONE, ControllerWpantund_new 16 ''wpan0'' example_controller)"
  using TmfProxyStop_unbound_noop [of "ControllerWpantund_new 16 ''wpan0'' example_controller"]
  by (simp add: ControllerWpantund_new_def)

text \<open>
  C9, as the code has it. \<open>TmfProxyStop\<close> does not clear the daemon binding: the stored
  bus name and object path after the call are the ones stored before it. (Nothing in the
  file clears them; only \<open>TmfProxyStart\<close> overwrites them.) The call hands the request
  that disables the proxy to the bus when the bus name is not empty and the message can
  be built, and it makes no other call; with an empty bus name it makes no call at all.
\<close>

theorem TmfProxyStop_keeps_binding:
  "mInterfaceDBusName (snd (TmfProxyStop s)) = mInterfaceDBusName s \<and>
   mInterfaceDBusPath (snd (TmfProxyStop s)) = mInterfaceDBusPath s \<and>
   trace (snd (TmfProxyStop s)) =
     (if mInterfaceDBusName s \<noteq> [] \<and> new_method_call_ok s \<and> append_args_ok s
      then trace s @ [ConnectionSend
             (new_method_call s WPANTUND_IF_CMD_PROP_SET
                [DBusString kWPANTUNDProperty_TmfProxyEnabled, DBusBoolean False])]
      else trace s)"
  by (simp add: TmfProxyStop_def TmfProxyEnable_def Let_def)

text \<open>
  C9, as stated, fails: on a controller bound to \<open>:1.42\<close> the stop succeeds and the bus
  name and the object path are still set afterwards.
\<close>

theorem TmfProxyStop_keeps_binding_example:
  "fst (TmfProxyStop example_controller) = OTBR_ERROR_NONE \<and>
   mInterfaceDBusName (snd (TmfProxyStop example_controller)) = '':1.42'' \<and>
   mInterfaceDBusName (snd (TmfProxyStop example_controller)) \<noteq> [] \<and>
   mInterfaceDBusPath (snd (TmfProxyStop example_controller)) \<noteq> []"
  by (simp add: TmfProxyStop_def TmfProxyEnable_def Let_def example_controller_def)

subsection \<open>The property codec\<close>

text \<open>
  C3. For an array payload of the extended PAN id, \<open>ParseEvent\<close> returns
  \<open>OTBR_ERROR_NONE\<close> and emits the bytes when there are exactly 8 of them, and returns
  \<open>OTBR_ERROR_DBUS\<close> with the state unchanged (no event) for any other length; the same
  holds for the PSKc with 16 bytes.
\<close>

theorem ParseEvent_fixed_size_arrays:
  "ParseEvent kWPANTUNDProperty_NetworkXPANID (DBusByteArray bytes # iter) s =
     (if length bytes = 8 then (Inr OTBR_ERROR_NONE, emit (EventExtPanId bytes) s)
      else (Inr OTBR_ERROR_DBUS, s)) \<and>
   ParseEvent kWPANTUNDProperty_NetworkPSKc (DBusByteArray bytes # iter) s =
     (if length bytes = 16 then (Inr OTBR_ERROR_NONE, emit (EventPSKc bytes) s)
      else (Inr OTBR_ERROR_DBUS, s))"
  by (simp add: ParseEvent_def kSizeExtPanId_def kSizePSKc_def
      kWPANTUNDProperty_NetworkXPANID_def kWPANTUNDProperty_NetworkPSKc_def
      kWPANTUNDProperty_TmfProxyStream_def kWPANTUNDProperty_NCPState_def
      kWPANTUNDProperty_NetworkName_def)

text \<open>
  C4 asks that a proxy datagram shorter than four bytes is rejected with
  \<open>OTBR_ERROR_DBUS\<close>. The code has no such check: on the three-byte array \<open>[1, 2, 3]\<close>
  the length wraps from 0 to 65535 at the fourth \<open>buf[--len]\<close> and the read leaves the
  array. (\<open>ParseEvent_short_datagram\<close> shows the same for every array shorter than four
  bytes.)
\<close>

theorem ParseEvent_short_datagram_reads_out_of_bounds:
  "ParseEvent kWPANTUNDProperty_TmfProxyStream [DBusByteArray [1, 2, 3]] example_controller =
     (Inl OutOfBoundsRead, example_controller) \<and>
   fst (ParseEvent kWPANTUNDProperty_TmfProxyStream [DBusByteArray [1, 2, 3]]
          example_controller) \<noteq> Inr OTBR_ERROR_DBUS"
  by (simp add: ParseEvent_short_datagram)

text \<open>
  C6. On a little-endian host the 64-bit integer with big-endian bytes \<open>b0 .. b7\<close> lies
  in memory as \<open>b7 .. b0\<close>, and \<open>ParseEvent\<close> emits the extended PAN id \<open>b0 .. b7\<close>;
  an array of 8 bytes is emitted as it is.
\<close>

theorem ParseEvent_xpanid_integer_big_endian:
  assumes "BYTE_ORDER s = LITTLE_ENDIAN" and "length bytes = 8"
  shows "store_uint64 (BYTE_ORDER s) (uint64_of_be b0 b1 b2 b3 b4 b5 b6 b7) =
           [b7, b6, b5, b4, b3, b2, b1, b0] \<and>
         ParseEvent kWPANTUNDProperty_NetworkXPANID
             (DBusUInt64 (uint64_of_be b0 b1 b2 b3 b4 b5 b6 b7) # iter) s =
           (Inr OTBR_ERROR_NONE, emit (EventExtPanId [b0, b1, b2, b3, b4, b5, b6, b7]) s) \<and>
         ParseEvent kWPANTUNDProperty_NetworkXPANID (DBusByteArray bytes # iter) s =
           (Inr OTBR_ERROR_NONE, emit (EventExtPanId bytes) s)"
proof -
  have k: "kWPANTUNDProperty_NetworkXPANID \<noteq> kWPANTUNDProperty_TmfProxyStream"
    "kWPANTUNDProperty_NetworkXPANID \<noteq> kWPANTUNDProperty_NCPState"
    "kWPANTUNDProperty_NetworkXPANID \<noteq> kWPANTUNDProperty_NetworkName"
    by (simp_all add: kWPANTUNDProperty_NetworkXPANID_def kWPANTUNDProperty_TmfProxyStream_def
        kWPANTUNDProperty_NCPState_def kWPANTUNDProperty_NetworkName_def)
  have m: "store_uint64 LITTLE_ENDIAN (uint64_of_be b0 b1 b2 b3 b4 b5 b6 b7) =
           [b7, b6, b5, b4, b3, b2, b1, b0]"
    unfolding store_uint64_def le_bytes_8 be_bytes by simp
  show ?thesis
    by (simp add: m ParseEvent_def k assms kSizeExtPanId_def convert_to_network_endian_def swap8)
qed

theorem ParseEvent_xpanid_integer_big_endian_witness:
  "BYTE_ORDER example_controller = LITTLE_ENDIAN \<and> length [1, 2, 3, 4, 5, 6, 7, 8 :: uint8_t] = 8 \<and>
   uint64_of_be 1 2 3 4 5 6 7 8 = 0x0102030405060708 \<and>
   store_uint64 (BYTE_ORDER example_controller) 0x0102030405060708 = [8, 7, 6, 5, 4, 3, 2, 1] \<and>
   ParseEvent kWPANTUNDProperty_NetworkXPANID [DBusUInt64 0x0102030405060708] example_controller =
     (Inr OTBR_ERROR_NONE, emit (EventExtPanId [1, 2, 3, 4, 5, 6, 7, 8]) example_controller) \<and>
   ParseEvent kWPANTUNDProperty_NetworkXPANID [DBusByteArray [1, 2, 3, 4, 5, 6, 7, 8]]
       example_controller =
     (Inr OTBR_ERROR_NONE, emit (EventExtPanId [1, 2, 3, 4, 5, 6, 7, 8]) example_controller)"
proof -
  have a: "BYTE_ORDER example_controller = LITTLE_ENDIAN"
    by (simp add: example_controller_def)
  have b: "length [1, 2, 3, 4, 5, 6, 7, 8 :: uint8_t] = 8"
    by simp
  have v: "uint64_of_be 1 2 3 4 5 6 7 8 = 0x0102030405060708"
    by simp
  show ?thesis
    using ParseEvent_xpanid_integer_big_endian [OF a b, of 1 2 3 4 5 6 7 8 "[]"] a v
    by simp
qed

text \<open>
  C2, as the code has it. For a body \<open>B\<close> of at most 65532 bytes, a locator \<open>L\<close> and a
  port \<open>P\<close>, \<open>TmfProxySend\<close> builds the array \<open>B\<close> followed by the high and low bytes of
  \<open>L\<close> and of \<open>P\<close>, and \<open>ParseEvent\<close> on that array emits the event with length
  \<open>length B\<close>, locator \<open>L\<close> and port \<open>P\<close>, whose body is \<open>B\<close>.
\<close>

theorem TmfProxy_roundtrip:
  assumes "length B + 4 \<le> 65536"
  shows "TmfProxySend_data B (of_nat (length B)) L P =
           Inr (B @ [ucast (drop_bit 8 L), ucast (L AND 0xff),
                     ucast (drop_bit 8 P), ucast (P AND 0xff)]) \<and>
         ParseEvent kWPANTUNDProperty_TmfProxyStream
             (DBusByteArray (B @ [ucast (drop_bit 8 L), ucast (L AND 0xff),
                                  ucast (drop_bit 8 P), ucast (P AND 0xff)]) # iter) s =
           (Inr OTBR_ERROR_NONE,
            emit (EventTmfProxyStream
                    (B @ [ucast (drop_bit 8 L), ucast (L AND 0xff),
                          ucast (drop_bit 8 P), ucast (P AND 0xff)])
                    (of_nat (length B)) L P) s) \<and>
         datagram_body (EventTmfProxyStream
                    (B @ [ucast (drop_bit 8 L), ucast (L AND 0xff),
                          ucast (drop_bit 8 P), ucast (P AND 0xff)])
                    (of_nat (length B)) L P) = B"
proof -
  have u: "unat (of_nat (length B) :: uint16_t) = length B"
    using assms by (simp add: unat_of_nat)
  show ?thesis
    using assms
    by (simp add: TmfProxySend_data_layout [OF u] ParseEvent_def
        decode_proxy_stream_suffix [OF assms] u)
qed

theorem TmfProxy_roundtrip_witness:
  "TmfProxySend_data [9, 8] 2 0x1234 0x5678 = Inr [9, 8, 0x12, 0x34, 0x56, 0x78] \<and>
   ParseEvent kWPANTUNDProperty_TmfProxyStream
       [DBusByteArray [9, 8, 0x12, 0x34, 0x56, 0x78]] example_controller =
     (Inr OTBR_ERROR_NONE,
      emit (EventTmfProxyStream [9, 8, 0x12, 0x34, 0x56, 0x78] 2 0x1234 0x5678)
        example_controller) \<and>
   datagram_body (EventTmfProxyStream [9, 8, 0x12, 0x34, 0x56, 0x78] 2 0x1234 0x5678) = [9, 8]"
  using TmfProxy_roundtrip [of "[9, 8]" "0x1234" "0x5678" "[]" example_controller]
  by simp

text \<open>
  C2, as stated for every body, fails: \<open>aLength\<close> admits bodies of up to 65535 bytes, and
  for 65533 bytes the array has 65537 elements, which the decoder's \<open>uint16_t\<close> length
  reads as 1. The low byte of the port is then taken from the first byte of the body: the
  port sent is \<open>0x5678\<close>, the port emitted is \<open>0x5600\<close>.
\<close>

theorem TmfProxy_roundtrip_counterexample:
  "TmfProxySend_data (replicate 65533 0) 65533 0x1234 0x5678 =
     Inr (replicate 65533 0 @ [0x12, 0x34, 0x56, 0x78]) \<and>
   ParseEvent kWPANTUNDProperty_TmfProxyStream
       [DBusByteArray (replicate 65533 0 @ [0x12, 0x34, 0x56, 0x78])] example_controller =
     (Inr OTBR_ERROR_NONE,
      emit (EventTmfProxyStream (replicate 65533 0 @ [0x12, 0x34, 0x56, 0x78])
              65533 0x1234 0x5600) example_controller) \<and>
   ParseEvent kWPANTUNDProperty_TmfProxyStream
       [DBusByteArray (replicate 65533 0 @ [0x12, 0x34, 0x56, 0x78])] example_controller \<noteq>
     (Inr OTBR_ERROR_NONE,
      emit (EventTmfProxyStream (replicate 65533 0 @ [0x12, 0x34, 0x56, 0x78])
              65533 0x1234 0x5678) example_controller)"
proof -
  have u: "unat (65533 :: uint16_t) = length (replicate 65533 (0::uint8_t))"
    by (simp)
  have "TmfProxySend_data (replicate 65533 0) 65533 0x1234 0x5678 =
     Inr (replicate 65533 0 @ [0x12, 0x34, 0x56, 0x78])"
    unfolding TmfProxySend_data_layout [OF u] by (simp)
  then show ?thesis
    by (simp add: ParseEvent_def long_decode emit_inject)
qed

subsection \<open>The signal filter\<close>

text \<open>
  C1 asks that the filter returns \<open>DBUS_HANDLER_RESULT_HANDLED\<close> whether the decode
  fails or succeeds. The code passes \<open>OTBR_ERROR_NONE == ParseEvent(key, &iter)\<close> to
  \<open>SuccessOrExit\<close>, which leaves when that value is not 0: a state signal that decodes
  (and emits its event) is returned as not yet handled, and a PSKc signal of three bytes,
  which fails to decode, is returned as handled.
\<close>

theorem HandlePropertyChangedSignal_decoded_not_handled:
  "HandlePropertyChangedSignal 256
     (property_changed '':1.42'' kWPANTUNDProperty_NCPState [DBusString ''associated''])
     example_controller =
   (Inr DBUS_HANDLER_RESULT_NOT_YET_HANDLED,
    emit (EventThreadState True) example_controller) \<and>
   HandlePropertyChangedSignal 256
     (property_changed '':1.42'' kWPANTUNDProperty_NetworkPSKc [DBusByteArray [1, 2, 3]])
     example_controller =
   (Inr DBUS_HANDLER_RESULT_HANDLED, example_controller)"
  by (simp add: HandlePropertyChangedSignal_def property_changed_def name_changed_def
      dbus_message_is_signal_def ParseEvent_def SuccessOrExit_def example_controller_def
      kSizePSKc_def emit_def
      kWPANTUNDProperty_NetworkXPANID_def kWPANTUNDProperty_NetworkPSKc_def
      kWPANTUNDProperty_TmfProxyStream_def kWPANTUNDProperty_NCPState_def
      kWPANTUNDProperty_NetworkName_def)

text \<open>
  C5. When the sender of a message differs from the stored daemon bus name and its path
  contains the interface name, the filter makes exactly one start attempt, whatever the
  type, member and arguments of the message are.
\<close>

theorem name_change_triggers_one_start:
  assumes "msg_sender m = Some sender" and "msg_path m = Some path"
    and "sender \<noteq> mInterfaceDBusName s" and "strstr path (mInterfaceName s)"
  shows "start_attempts (snd (HandlePropertyChangedSignal sz m s)) = start_attempts s + 1"
proof -
  have c: "name_changed m s"
    using assms by (simp add: name_changed_def)
  show ?thesis
    by (auto simp add: HandlePropertyChangedSignal_def c Let_def ParseEvent_start_attempts_pair
        TmfProxyStart_start_attempts split: list.splits DBusArg.splits prod.splits sum.splits)
qed


theorem name_change_triggers_one_start_witness:
  "msg_sender (property_changed '':1.77'' kWPANTUNDProperty_NetworkName [DBusString ''home''])
     = Some '':1.77'' \<and>
   msg_path (property_changed '':1.77'' kWPANTUNDProperty_NetworkName [DBusString ''home''])
     = Some ''/org/wpantund/wpan0'' \<and>
   '':1.77'' \<noteq> mInterfaceDBusName example_controller \<and>
   strstr ''/org/wpantund/wpan0'' (mInterfaceName example_controller) \<and>
   start_attempts (snd (HandlePropertyChangedSignal 256
     (property_changed '':1.77'' kWPANTUNDProperty_NetworkName [DBusString ''home''])
     example_controller)) = start_attempts example_controller + 1"
proof -
  have a: "msg_sender (property_changed '':1.77'' kWPANTUNDProperty_NetworkName [DBusString ''home''])
     = Some '':1.77''"
    by (simp add: property_changed_def)
  have b: "msg_path (property_changed '':1.77'' kWPANTUNDProperty_NetworkName [DBusString ''home''])
     = Some ''/org/wpantund/wpan0''"
    by (simp add: property_changed_def)
  have c: "'':1.77'' \<noteq> mInterfaceDBusName example_controller"
    by (simp add: example_controller_def)
  have d: "strstr ''/org/wpantund/wpan0'' (mInterfaceName example_controller)"
    by (simp add: example_controller_def)
  show ?thesis
    using a b c d name_change_triggers_one_start [OF a b c d, of 256] by simp
qed

subsection \<open>Synchronous reads\<close>

text \<open>
  C7. When the reply to \<open>RequestEvent\<close> starts with the status \<open>SPINEL_STATUS_OK\<close>, the
  rest of the reply is decoded by \<open>ParseEvent\<close> under the key of the requested event, and
  the events the request emits are the events the signal filter emits for a
  property-changed signal with the same key and the same payload (on a controller
  compiled for the same byte order).
\<close>

theorem RequestEvent_decodes_like_signal:
  assumes "event_key aEvent = Some key"
    and "new_method_call_ok s" and "append_args_ok s"
    and "replies s = Some (status # payload) # rest"
    and "get_basic_uint32 status = Inr SPINEL_STATUS_OK"
    and "dbus_message_is_signal m WPANTUND_DBUS_APIv1_INTERFACE WPANTUND_IF_SIGNAL_PROP_CHANGED"
    and "msg_args m = DBusString key # payload"
    and "BYTE_ORDER t = BYTE_ORDER s"
  shows "RequestEvent aEvent s =
           ParseEvent key payload
             (snd (send_with_reply_and_block
                     (new_method_call s WPANTUND_IF_CMD_PROP_GET [DBusString key]) s)) \<and>
         new_events s (snd (RequestEvent aEvent s)) =
           new_events t (snd (HandlePropertyChangedSignal sz m t))"
proof -
  let ?s1 = "snd (send_with_reply_and_block
                     (new_method_call s WPANTUND_IF_CMD_PROP_GET [DBusString key]) s)"
  let ?t1 = "if name_changed m t then snd (TmfProxyStart sz t) else t"
  have req: "RequestEvent aEvent s = ParseEvent key payload ?s1"
    using assms(1-5)
    by (simp add: RequestEvent_def send_with_reply_and_block_def Let_def)
  have s1: "emitted ?s1 = emitted s" "BYTE_ORDER ?s1 = BYTE_ORDER s"
    by (simp_all add: send_emitted)
  have t1: "emitted ?t1 = emitted t" "BYTE_ORDER ?t1 = BYTE_ORDER t"
    by (simp_all add: TmfProxyStart_emitted)
  have "new_events s (snd (RequestEvent aEvent s)) = new_events ?s1 (snd (ParseEvent key payload ?s1))"
    unfolding req using s1(1) by (simp add: new_events_def)
  also have "\<dots> = new_events ?t1 (snd (ParseEvent key payload ?t1))"
    by (rule ParseEvent_new_events [symmetric]) (simp only: s1 t1 assms(8))
  also have "\<dots> = new_events t (snd (HandlePropertyChangedSignal sz m t))"
    unfolding HandlePropertyChangedSignal_snd [OF assms(6,7)] using t1(1)
    by (simp add: new_events_def)
  finally show ?thesis
    using req by simp
qed

theorem RequestEvent_decodes_like_signal_witness:
  "event_key kEventExtPanId = Some kWPANTUNDProperty_NetworkXPANID \<and>
   get_basic_uint32 (DBusInt32 0) = Inr SPINEL_STATUS_OK \<and>
   dbus_message_is_signal
     (property_changed '':1.42'' kWPANTUNDProperty_NetworkXPANID
        [DBusByteArray [1, 2, 3, 4, 5, 6, 7, 8]])
     WPANTUND_DBUS_APIv1_INTERFACE WPANTUND_IF_SIGNAL_PROP_CHANGED \<and>
   new_events eui64_controller (snd (RequestEvent kEventExtPanId eui64_controller)) =
     new_events example_controller
       (snd (HandlePropertyChangedSignal 256
               (property_changed '':1.42'' kWPANTUNDProperty_NetworkXPANID
                  [DBusByteArray [1, 2, 3, 4, 5, 6, 7, 8]])
               example_controller)) \<and>
   new_events eui64_controller (snd (RequestEvent kEventExtPanId eui64_controller)) =
     [EventExtPanId [1, 2, 3, 4, 5, 6, 7, 8]]"
proof -
  let ?m = "property_changed '':1.42'' kWPANTUNDProperty_NetworkXPANID
        [DBusByteArray [1, 2, 3, 4, 5, 6, 7, 8]]"
  have a: "event_key kEventExtPanId = Some kWPANTUNDProperty_NetworkXPANID"
    by simp
  have b: "new_method_call_ok eui64_controller" "append_args_ok eui64_controller"
    by (simp_all add: eui64_controller_def example_controller_def)
  have c: "replies eui64_controller =
      Some (DBusInt32 0 # [DBusByteArray [1, 2, 3, 4, 5, 6, 7, 8]]) #
      [Some [DBusInt32 0, DBusByteArray [8, 7, 6, 5, 4, 3, 2, 1]],
       Some [DBusInt32 0, DBusByteArray [9, 9, 9]]]"
    by (simp add: eui64_controller_def)
  have d: "get_basic_uint32 (DBusInt32 0) = Inr SPINEL_STATUS_OK"
    by (simp add: SPINEL_STATUS_OK_def)
  have e: "dbus_message_is_signal ?m WPANTUND_DBUS_APIv1_INTERFACE WPANTUND_IF_SIGNAL_PROP_CHANGED"
    by (simp add: dbus_message_is_signal_def property_changed_def)
  have f: "msg_args ?m = DBusString kWPANTUNDProperty_NetworkXPANID #
      [DBusByteArray [1, 2, 3, 4, 5, 6, 7, 8]]"
    by (simp add: property_changed_def)
  have g: "BYTE_ORDER example_controller = BYTE_ORDER eui64_controller"
    by (simp add: eui64_controller_def)
  have h: "ParseEvent kWPANTUNDProperty_NetworkXPANID [DBusByteArray [1, 2, 3, 4, 5, 6, 7, 8]] s =
      (Inr OTBR_ERROR_NONE, emit (EventExtPanId [1, 2, 3, 4, 5, 6, 7, 8]) s)" for s
    by (simp add: ParseEvent_def kSizeExtPanId_def
        kWPANTUNDProperty_NetworkXPANID_def kWPANTUNDProperty_TmfProxyStream_def
        kWPANTUNDProperty_NCPState_def kWPANTUNDProperty_NetworkName_def)
  note w = RequestEvent_decodes_like_signal [OF a b c d e f g, of 256]
  have ev: "new_events eui64_controller (snd (RequestEvent kEventExtPanId eui64_controller)) =
     [EventExtPanId [1, 2, 3, 4, 5, 6, 7, 8]]"
    unfolding w [THEN conjunct1] h
    by (simp add: new_events_def emitted_def emit_def
        send_with_reply_and_block_def eui64_controller_def example_controller_def Let_def)
  show ?thesis
    by (intro conjI a d e ev w [THEN conjunct2])
qed

text \<open>
  C10, as the code has it. \<open>GetEui64\<close> keeps no cache: whatever \<open>mEui64\<close> holds and
  whatever the reply turns out to be, a call whose request can be built sends one
  get-property request for the hardware address and blocks for the reply (a call whose
  request cannot be built sends nothing); when the reply carries the status
  \<open>SPINEL_STATUS_OK\<close> and 8 bytes, these bytes replace the content of the buffer and are
  returned.
\<close>

theorem GetEui64_fetches_on_every_call:
  "trace (snd (GetEui64 s)) =
     (if new_method_call_ok s \<and> append_args_ok s
      then trace s @ [SendWithReplyAndBlock
             (new_method_call s WPANTUND_IF_CMD_PROP_GET
                [DBusString kWPANTUNDProperty_NCPHardwareAddress])]
      else trace s) \<and>
   (new_method_call_ok s \<longrightarrow> append_args_ok s \<longrightarrow>
    replies s = Some (DBusInt32 SPINEL_STATUS_OK # DBusByteArray b # others) # rest \<longrightarrow>
    length b = 8 \<longrightarrow> length (mEui64 s) = 8 \<longrightarrow>
    GetEui64 s =
     (Inr (Some b),
      s\<lparr>trace := trace s @ [SendWithReplyAndBlock
              (new_method_call s WPANTUND_IF_CMD_PROP_GET
                 [DBusString kWPANTUNDProperty_NCPHardwareAddress])],
        replies := rest, mEui64 := b\<rparr>))"
proof (intro conjI impI)
  show "trace (snd (GetEui64 s)) =
     (if new_method_call_ok s \<and> append_args_ok s
      then trace s @ [SendWithReplyAndBlock
             (new_method_call s WPANTUND_IF_CMD_PROP_GET
                [DBusString kWPANTUNDProperty_NCPHardwareAddress])]
      else trace s)"
    by (rule GetEui64_trace)
next
  assume "new_method_call_ok s" and "append_args_ok s"
    and "replies s = Some (DBusInt32 SPINEL_STATUS_OK # DBusByteArray b # others) # rest"
    and "length b = 8" and "length (mEui64 s) = 8"
  then show "GetEui64 s =
     (Inr (Some b),
      s\<lparr>trace := trace s @ [SendWithReplyAndBlock
              (new_method_call s WPANTUND_IF_CMD_PROP_GET
                 [DBusString kWPANTUNDProperty_NCPHardwareAddress])],
        replies := rest, mEui64 := b\<rparr>)"
    by (simp add: GetEui64_def GetProperty_def RequestProperty_def
        send_with_reply_and_block_def SuccessOrExit_def kSizeEui64_def Let_def)
qed

theorem GetEui64_fetches_on_every_call_witness:
  "new_method_call_ok eui64_controller \<and> append_args_ok eui64_controller \<and>
   length (mEui64 eui64_controller) = 8 \<and>
   trace (snd (GetEui64 eui64_controller)) =
     trace eui64_controller @ [SendWithReplyAndBlock
        (new_method_call eui64_controller WPANTUND_IF_CMD_PROP_GET
           [DBusString kWPANTUNDProperty_NCPHardwareAddress])] \<and>
   GetEui64 eui64_controller =
     (Inr (Some [1, 2, 3, 4, 5, 6, 7, 8]),
      eui64_controller\<lparr>trace := trace eui64_controller @ [SendWithReplyAndBlock
              (new_method_call eui64_controller WPANTUND_IF_CMD_PROP_GET
                 [DBusString kWPANTUNDProperty_NCPHardwareAddress])],
        replies := [Some [DBusInt32 0, DBusByteArray [8, 7, 6, 5, 4, 3, 2, 1]],
                    Some [DBusInt32 0, DBusByteArray [9, 9, 9]]],
        mEui64 := [1, 2, 3, 4, 5, 6, 7, 8]\<rparr>)"
proof -
  have a: "new_method_call_ok eui64_controller" "append_args_ok eui64_controller"
    "length (mEui64 eui64_controller) = 8"
    by (simp_all add: eui64_controller_def example_controller_def)
  have r: "replies eui64_controller =
      Some (DBusInt32 SPINEL_STATUS_OK # DBusByteArray [1, 2, 3, 4, 5, 6, 7, 8] # []) #
      [Some [DBusInt32 0, DBusByteArray [8, 7, 6, 5, 4, 3, 2, 1]],
       Some [DBusInt32 0, DBusByteArray [9, 9, 9]]]"
    by (simp add: eui64_controller_def SPINEL_STATUS_OK_def)
  note w = GetEui64_fetches_on_every_call [of eui64_controller "[1, 2, 3, 4, 5, 6, 7, 8]" "[]"
      "[Some [DBusInt32 0, DBusByteArray [8, 7, 6, 5, 4, 3, 2, 1]],
        Some [DBusInt32 0, DBusByteArray [9, 9, 9]]]"]
  have t: "trace (snd (GetEui64 eui64_controller)) =
     trace eui64_controller @ [SendWithReplyAndBlock
        (new_method_call eui64_controller WPANTUND_IF_CMD_PROP_GET
           [DBusString kWPANTUNDProperty_NCPHardwareAddress])]"
    using w [THEN conjunct1] a by simp
  have g: "GetEui64 eui64_controller =
     (Inr (Some [1, 2, 3, 4, 5, 6, 7, 8]),
      eui64_controller\<lparr>trace := trace eui64_controller @ [SendWithReplyAndBlock
              (new_method_call eui64_controller WPANTUND_IF_CMD_PROP_GET
                 [DBusString kWPANTUNDProperty_NCPHardwareAddress])],
        replies := [Some [DBusInt32 0, DBusByteArray [8, 7, 6, 5, 4, 3, 2, 1]],
                    Some [DBusInt32 0, DBusByteArray [9, 9, 9]]],
        mEui64 := [1, 2, 3, 4, 5, 6, 7, 8]\<rparr>)"
    using w [THEN conjunct2] a r by simp
  show ?thesis
    by (intro conjI a t g)
qed

text \<open>
  C10, as stated, fails: the second call does not answer from the buffer the first call
  filled. It sends a second request and returns the second reply, which replaces the
  first address.
\<close>

theorem GetEui64_refetches_example:
  "fst (GetEui64 eui64_controller) = Inr (Some [1, 2, 3, 4, 5, 6, 7, 8]) \<and>
   fst (GetEui64 (snd (GetEui64 eui64_controller))) = Inr (Some [8, 7, 6, 5, 4, 3, 2, 1]) \<and>
   length (trace (snd (GetEui64 (snd (GetEui64 eui64_controller))))) = 2 \<and>
   mEui64 (snd (GetEui64 (snd (GetEui64 eui64_controller)))) \<noteq>
     mEui64 (snd (GetEui64 eui64_controller))"
  unfolding GetEui64_first
  by (simp add: GetEui64_def GetProperty_def RequestProperty_def send_with_reply_and_block_def
      SuccessOrExit_def kSizeEui64_def Let_def eui64_controller_def example_controller_def
      SPINEL_STATUS_OK_def)

end
